theory Spec2Isabelle
  imports Complex_Main "HOL-Library.Word" "HOL-Library.Log_Nat"
begin

section \<open>Python values and exceptions\<close>

text \<open>
  Exceptions of \<^verbatim>\<open>main.py\<close> as values. Every exception below is a subclass of
  Python's \<^verbatim>\<open>Exception\<close>, so each \<^verbatim>\<open>except Exception\<close> of the source catches all
  of them. \<open>OtherError\<close> stands for any other exception raised by an external call
  (requests, PyMuPDF, the operating system), tagged with its class name.
\<close>

datatype py_error =
    EnvironmentError
  | RuntimeError string
  | FileNotFoundError
  | ValueError
  | TypeError
  | AttributeError
  | KeyError
  | IndexError
  | OverflowError
  | cv2_error
  | OtherError string

section \<open>Double-precision floats\<close>

text \<open>
  A Python float is an IEEE 754 double. A finite double is kept as its exact value, a
  rational; the sign of zero is not kept. Every operation of the source on floats is the
  exact operation followed by rounding to the nearest double, a tie going to the even
  significand.
\<close>

definition round_half_even :: "rat \<Rightarrow> int" where
  "round_half_even x =
     (let f = \<lfloor>x\<rfloor>; d = x - of_int f
      in if d < 1 / 2 then f else if 1 / 2 < d then f + 1 else if even f then f else f + 1)"

text \<open>For \<open>x > 0\<close>, the \<open>e\<close> with \<open>2 ^ e \<le> x < 2 ^ (e + 1)\<close>, from the bit lengths of \<open>x\<close> as a fraction.\<close>

definition exponent :: "rat \<Rightarrow> int" where
  "exponent x =
     (case quotient_of x of
        (a, b) \<Rightarrow> (let d = bitlen a - bitlen b in if 2 powi d \<le> x then d else d - 1))"

text \<open>
  The double nearest to \<open>x\<close>, while the exponent stays in range: a significand of 53 bits,
  and the fixed spacing \<open>2 ^ -1074\<close> of the subnormal numbers below \<open>2 ^ -1022\<close>.
\<close>

definition fl :: "rat \<Rightarrow> rat" where
  "fl x =
     (if x = 0 then 0
      else let q = max (exponent \<bar>x\<bar> - 52) (- 1074)
           in of_int (round_half_even (x / 2 powi q)) * 2 powi q)"

text \<open>A float: finite, an infinity, or not a number. A result that rounds to \<open>2 ^ 1024\<close> overflows.\<close>

datatype pyfloat = Finite rat | PosInf | NegInf | NaN

definition to_float :: "rat \<Rightarrow> pyfloat" where
  "to_float x =
     (let y = fl x
      in if 2 ^ 1024 \<le> y then PosInf else if y \<le> - (2 ^ 1024) then NegInf else Finite y)"

fun float_add :: "pyfloat \<Rightarrow> pyfloat \<Rightarrow> pyfloat" where
  "float_add (Finite x) (Finite y) = to_float (x + y)"
| "float_add NaN y = NaN"
| "float_add x NaN = NaN"
| "float_add PosInf NegInf = NaN"
| "float_add NegInf PosInf = NaN"
| "float_add PosInf y = PosInf"
| "float_add NegInf y = NegInf"
| "float_add x PosInf = PosInf"
| "float_add x NegInf = NegInf"

text \<open>An integer as a float: Python raises \<^verbatim>\<open>OverflowError\<close> when it is too large.\<close>

definition int_to_float :: "int \<Rightarrow> py_error + pyfloat" where
  "int_to_float a =
     (case to_float (of_int a) of Finite y \<Rightarrow> Inr (Finite y) | _ \<Rightarrow> Inl OverflowError)"

text \<open>\<^verbatim>\<open>c / t\<close> on two integers (true division) and \<^verbatim>\<open>x * y\<close> on floats, for results in range.\<close>

definition true_div :: "nat \<Rightarrow> nat \<Rightarrow> rat" where
  "true_div c t = fl (of_nat c / of_nat t)"

definition float_mul :: "rat \<Rightarrow> rat \<Rightarrow> rat" where
  "float_mul x y = fl (x * y)"

text \<open>
  \<^verbatim>\<open>round(x, ndigits)\<close> on a float: the exact value of the double \<open>x\<close> is rounded to \<open>ndigits\<close>
  decimals, a tie going to the even digit, and the result is the double nearest to that
  decimal number.
\<close>

definition py_round :: "rat \<Rightarrow> nat \<Rightarrow> rat" where
  "py_round x ndigits = fl (of_int (round_half_even (x * 10 ^ ndigits)) / 10 ^ ndigits)"

section \<open>JSON values\<close>

text \<open>
  The values \<^verbatim>\<open>response.json()\<close> can return. A JSON object is a Python dict; it is kept
  as an association list read with \<open>map_of\<close>.
\<close>

datatype json =
    JNull
  | JBool bool
  | JInt int
  | JFloat pyfloat
  | JStr string
  | JArr "json list"
  | JObj "(string \<times> json) list"

definition bind_exc :: "py_error + 'a \<Rightarrow> ('a \<Rightarrow> py_error + 'b) \<Rightarrow> py_error + 'b" where
  "bind_exc m f = (case m of Inl e \<Rightarrow> Inl e | Inr x \<Rightarrow> f x)"

text \<open>Truth value of an object, as \<^verbatim>\<open>and\<close> and \<^verbatim>\<open>if\<close> test it.\<close>

fun truthy :: "json \<Rightarrow> bool" where
  "truthy JNull = False"
| "truthy (JBool b) = b"
| "truthy (JInt i) = (i \<noteq> 0)"
| "truthy (JFloat x) = (x \<noteq> Finite 0)"
| "truthy (JStr s) = (s \<noteq> [])"
| "truthy (JArr xs) = (xs \<noteq> [])"
| "truthy (JObj kvs) = (kvs \<noteq> [])"

text \<open>\<^verbatim>\<open>x.get(k, d)\<close>: only a dict has the method.\<close>

fun dict_get :: "json \<Rightarrow> string \<Rightarrow> json \<Rightarrow> py_error + json" where
  "dict_get (JObj kvs) k d = Inr (case map_of kvs k of None \<Rightarrow> d | Some v \<Rightarrow> v)"
| "dict_get _ k d = Inl AttributeError"

fun starts_with :: "string \<Rightarrow> string \<Rightarrow> bool" where
  "starts_with [] s = True"
| "starts_with (c # k) [] = False"
| "starts_with (c # k) (d # s) = (c = d \<and> starts_with k s)"

fun contains_str :: "string \<Rightarrow> string \<Rightarrow> bool" where
  "contains_str k [] = (k = [])"
| "contains_str k (c # s) = (starts_with k (c # s) \<or> contains_str k s)"

text \<open>
  \<^verbatim>\<open>k in x\<close> for a string \<open>k\<close>: key membership for a dict, element membership for a
  list, substring test for a string, \<^verbatim>\<open>TypeError\<close> for \<^verbatim>\<open>None\<close>, booleans and numbers.
\<close>

fun py_in :: "string \<Rightarrow> json \<Rightarrow> py_error + bool" where
  "py_in k (JObj kvs) = Inr (map_of kvs k \<noteq> None)"
| "py_in k (JArr xs) = Inr (JStr k \<in> set xs)"
| "py_in k (JStr s) = Inr (contains_str k s)"
| "py_in k _ = Inl TypeError"

text \<open>\<^verbatim>\<open>x[k]\<close> for a string \<open>k\<close>.\<close>

fun py_getitem :: "json \<Rightarrow> string \<Rightarrow> py_error + json" where
  "py_getitem (JObj kvs) k = (case map_of kvs k of None \<Rightarrow> Inl KeyError | Some v \<Rightarrow> Inr v)"
| "py_getitem _ k = Inl TypeError"

text \<open>
  \<^verbatim>\<open>a + b\<close> on these values: booleans count as the integers 0 and 1, an integer meeting a
  float is converted to a float first, strings and lists concatenate, everything else is
  a \<^verbatim>\<open>TypeError\<close>. The running totals of the program start at the integer 0, so their
  \<^verbatim>\<open>total += x\<close> is \<^verbatim>\<open>total = total + x\<close>.
\<close>

fun py_add :: "json \<Rightarrow> json \<Rightarrow> py_error + json" where
  "py_add (JInt a) (JInt b) = Inr (JInt (a + b))"
| "py_add (JInt a) (JBool b) = Inr (JInt (a + of_bool b))"
| "py_add (JBool a) (JInt b) = Inr (JInt (of_bool a + b))"
| "py_add (JBool a) (JBool b) = Inr (JInt (of_bool a + of_bool b))"
| "py_add (JInt a) (JFloat y) = bind_exc (int_to_float a) (\<lambda>x. Inr (JFloat (float_add x y)))"
| "py_add (JBool a) (JFloat y) = Inr (JFloat (float_add (Finite (of_bool a)) y))"
| "py_add (JFloat x) (JInt b) = bind_exc (int_to_float b) (\<lambda>y. Inr (JFloat (float_add x y)))"
| "py_add (JFloat x) (JBool b) = Inr (JFloat (float_add x (Finite (of_bool b))))"
| "py_add (JFloat x) (JFloat y) = Inr (JFloat (float_add x y))"
| "py_add (JStr s) (JStr t) = Inr (JStr (s @ t))"
| "py_add (JArr xs) (JArr ys) = Inr (JArr (xs @ ys))"
| "py_add _ _ = Inl TypeError"

section \<open>Price table and tier resolution\<close>

text \<open>
  The dict built by \<^verbatim>\<open>fetch_pricing_config\<close> has exactly the keys \<^verbatim>\<open>bnw\<close>, \<^verbatim>\<open>color\<close> and
  \<^verbatim>\<open>full_color\<close>. Two of its values may come from the remote payload unchecked, so a
  price is a JSON value.
\<close>

record price_config =
  bnw :: json
  color :: json
  full_color :: json

text \<open>
  \<^verbatim>\<open>calculate_price_for_percentage\<close>. The percentage is the classifier's output, a
  finite float; it is a rational here.
\<close>

definition calculate_price_for_percentage :: "rat \<Rightarrow> price_config \<Rightarrow> string \<times> json" where
  "calculate_price_for_percentage percentage price_config =
     (if percentage \<le> 0 then (''black_and_white'', bnw price_config)
      else if percentage \<le> 50 then (''color'', color price_config)
      else (''full_color'', full_color price_config))"

section \<open>Pricing configuration\<close>

text \<open>
  What \<^verbatim>\<open>requests.get(PRICING_API_URL, timeout=5)\<close> does: it raises (timeout, refused
  connection, unreachable host), or it returns a response with a status code whose
  \<^verbatim>\<open>json()\<close> either raises or returns the decoded body.
\<close>

datatype fetch_outcome =
    GetRaised py_error
  | GotResponse int "py_error + json"

definition default_prices :: price_config where
  "default_prices = \<lparr>bnw = JInt 500, color = JInt 1000, full_color = JInt 1500\<rparr>"

text \<open>
  The test \<^verbatim>\<open>data.get('success') and 'data' in data and 'prices' in data['data']\<close>,
  evaluated left to right with short circuit.
\<close>

definition payload_ok :: "json \<Rightarrow> py_error + bool" where
  "payload_ok data =
     bind_exc (dict_get data ''success'' JNull) (\<lambda>s.
       if \<not> truthy s then Inr False
       else bind_exc (py_in ''data'' data) (\<lambda>has_data.
         if \<not> has_data then Inr False
         else bind_exc (py_getitem data ''data'') (\<lambda>d. py_in ''prices'' d)))"

text \<open>
  The body of the \<^verbatim>\<open>try\<close>: the dict \<open>prices\<close> as it is when the body ends, and the
  exception that ended it, if any.
\<close>

definition fetch_body :: "price_config \<Rightarrow> fetch_outcome \<Rightarrow> price_config \<times> py_error option" where
  "fetch_body prices outcome =
     (case outcome of
        GetRaised e \<Rightarrow> (prices, Some e)
      | GotResponse status_code body \<Rightarrow>
          if status_code = 200 then
            (case body of
               Inl e \<Rightarrow> (prices, Some e)
             | Inr data \<Rightarrow>
                 (case payload_ok data of
                    Inl e \<Rightarrow> (prices, Some e)
                  | Inr False \<Rightarrow> (prices, None)
                  | Inr True \<Rightarrow>
                      (case bind_exc (py_getitem data ''data'') (\<lambda>d. py_getitem d ''prices'') of
                         Inl e \<Rightarrow> (prices, Some e)
                       | Inr api_prices \<Rightarrow>
                           (case dict_get api_prices ''bnw'' (bnw prices) of
                              Inl e \<Rightarrow> (prices, Some e)
                            | Inr b \<Rightarrow>
                                (case dict_get api_prices ''color'' (color (prices\<lparr>bnw := b\<rparr>)) of
                                   Inl e \<Rightarrow> (prices\<lparr>bnw := b\<rparr>, Some e)
                                 | Inr c \<Rightarrow> (prices\<lparr>bnw := b, color := c\<rparr>, None))))))
          else (prices, None))"

text \<open>
  \<^verbatim>\<open>fetch_pricing_config\<close>: the handler \<^verbatim>\<open>except Exception: pass\<close> drops the exception
  and the function returns \<open>prices\<close> as the body left it.
\<close>

definition fetch_pricing_config :: "fetch_outcome \<Rightarrow> py_error + price_config" where
  "fetch_pricing_config outcome = Inr (fst (fetch_body default_prices outcome))"

section \<open>Pixel buffers\<close>

text \<open>
  A numpy array of dtype uint8 with shape \<open>(rows, cols, chans)\<close> and its buffer in row-major
  order: the pixel \<open>i\<close> (row \<open>i div cols\<close>, column \<open>i mod cols\<close>) holds the \<open>chans\<close> bytes from
  offset \<open>i * chans\<close>. Every array of the program has three axes: \<^verbatim>\<open>cv2.imread\<close> returns
  one, and the others come from \<^verbatim>\<open>reshape(pix.h, pix.w, pix.n)\<close> and from \<^verbatim>\<open>cv2.cvtColor\<close>.
\<close>

type_synonym byte = "8 word"

record ndarray =
  rows :: nat
  cols :: nat
  chans :: nat
  data :: "byte list"

definition pixels :: "ndarray \<Rightarrow> byte list list" where
  "pixels a = map (\<lambda>i. take (chans a) (drop (i * chans a) (data a))) [0..<rows a * cols a]"

text \<open>A rendered page: PyMuPDF's \<^verbatim>\<open>Pixmap\<close> with its fields \<^verbatim>\<open>n\<close>, \<^verbatim>\<open>h\<close>, \<^verbatim>\<open>w\<close> and \<^verbatim>\<open>samples\<close>.\<close>

record pixmap =
  pix_n :: nat
  pix_h :: nat
  pix_w :: nat
  pix_samples :: "byte list"

text \<open>
  \<^verbatim>\<open>np.frombuffer(pix.samples, dtype=np.uint8).reshape(pix.h, pix.w, pix.n)\<close>: numpy raises
  \<^verbatim>\<open>ValueError\<close> when the buffer does not have \<open>h * w * n\<close> bytes.
\<close>

definition reshape :: "pixmap \<Rightarrow> py_error + ndarray" where
  "reshape pix =
     (if length (pix_samples pix) = pix_h pix * pix_w pix * pix_n pix
      then Inr \<lparr>rows = pix_h pix, cols = pix_w pix, chans = pix_n pix, data = pix_samples pix\<rparr>
      else Inl ValueError)"

text \<open>
  \<^verbatim>\<open>cv2.cvtColor\<close> for the three conversion codes the program uses, as OpenCV documents
  them for 8-bit images. It raises \<^verbatim>\<open>cv2.error\<close> on an empty image and on a channel count
  the code does not accept: \<^verbatim>\<open>COLOR_GRAY2BGR\<close> takes one channel, \<^verbatim>\<open>COLOR_RGB2BGR\<close> and
  \<^verbatim>\<open>COLOR_BGR2HSV\<close> take three or four (a fourth channel is dropped). The result always
  has three channels. The hue/saturation/value triple of a pixel is OpenCV's own
  arithmetic; it is the parameter \<open>hsv\<close>, from the blue, green and red bytes to the hue,
  saturation and value bytes, and nothing is assumed about it. numpy has no array whose
  buffer disagrees with its shape; here such a value is rejected like an empty image.
\<close>

datatype color_code = COLOR_GRAY2BGR | COLOR_RGB2BGR | COLOR_BGR2HSV

type_synonym hsv_fn = "byte \<times> byte \<times> byte \<Rightarrow> byte \<times> byte \<times> byte"

definition convert_pixel :: "hsv_fn \<Rightarrow> color_code \<Rightarrow> byte list \<Rightarrow> byte list" where
  "convert_pixel hsv code p =
     (case code of
        COLOR_GRAY2BGR \<Rightarrow> [p ! 0, p ! 0, p ! 0]
      | COLOR_RGB2BGR \<Rightarrow> [p ! 2, p ! 1, p ! 0]
      | COLOR_BGR2HSV \<Rightarrow> (case hsv (p ! 0, p ! 1, p ! 2) of (h, s, v) \<Rightarrow> [h, s, v]))"

definition accepts_channels :: "color_code \<Rightarrow> nat \<Rightarrow> bool" where
  "accepts_channels code scn =
     (case code of
        COLOR_GRAY2BGR \<Rightarrow> scn = 1
      | COLOR_RGB2BGR \<Rightarrow> scn = 3 \<or> scn = 4
      | COLOR_BGR2HSV \<Rightarrow> scn = 3 \<or> scn = 4)"

definition cvtColor :: "hsv_fn \<Rightarrow> ndarray \<Rightarrow> color_code \<Rightarrow> py_error + ndarray" where
  "cvtColor hsv src code =
     (if rows src * cols src * chans src = 0
         \<or> length (data src) \<noteq> rows src * cols src * chans src then Inl cv2_error
      else if \<not> accepts_channels code (chans src) then Inl cv2_error
      else Inr \<lparr>rows = rows src, cols = cols src, chans = 3,
                data = concat (map (convert_pixel hsv code) (pixels src))\<rparr>)"

text \<open>\<^verbatim>\<open>a[:, :, k]\<close>: the channel \<open>k\<close> of every pixel, \<^verbatim>\<open>IndexError\<close> past the last channel.\<close>

definition channel :: "ndarray \<Rightarrow> nat \<Rightarrow> py_error + byte list" where
  "channel a k = (if k < chans a then Inr (map (\<lambda>p. p ! k) (pixels a)) else Inl IndexError)"

section \<open>Color classifier\<close>

definition SATURATION_THRESHOLD :: byte where
  "SATURATION_THRESHOLD = 20"

text \<open>The body of the \<^verbatim>\<open>try\<close> of \<^verbatim>\<open>analyze_image_array\<close>.\<close>

definition analyze_body :: "hsv_fn \<Rightarrow> ndarray \<Rightarrow> py_error + rat" where
  "analyze_body hsv img_array =
     bind_exc (cvtColor hsv img_array COLOR_BGR2HSV) (\<lambda>hsv_img.
     bind_exc (channel hsv_img 1) (\<lambda>saturation_channel.
       let colored_pixels = length (filter (\<lambda>s. SATURATION_THRESHOLD < s) saturation_channel);
           total_pixels = rows img_array * cols img_array
       in if total_pixels = 0 then Inr 0
          else Inr (py_round (float_mul (true_div colored_pixels total_pixels) 100) 2)))"

text \<open>
  \<^verbatim>\<open>analyze_image_array\<close>: the handler \<^verbatim>\<open>except Exception\<close> prints the exception and
  returns 0.0.
\<close>

definition analyze_image_array :: "hsv_fn \<Rightarrow> ndarray \<Rightarrow> py_error + rat" where
  "analyze_image_array hsv img_array =
     (case analyze_body hsv img_array of Inl e \<Rightarrow> Inr 0 | Inr pct \<Rightarrow> Inr pct)"

text \<open>
  The specification's words for the classifier, to compare with the code: the
  saturation of a pixel in hue/saturation/value space, the pixel being "colored" when its
  saturation exceeds 20, and the number of colored pixels of a page.
\<close>

definition saturation :: "hsv_fn \<Rightarrow> byte list \<Rightarrow> byte" where
  "saturation hsv p = fst (snd (hsv (p ! 0, p ! 1, p ! 2)))"

definition colored :: "hsv_fn \<Rightarrow> byte list \<Rightarrow> bool" where
  "colored hsv p = (20 < saturation hsv p)"

definition colored_count :: "hsv_fn \<Rightarrow> ndarray \<Rightarrow> nat" where
  "colored_count hsv img = length (filter (colored hsv) (pixels img))"

text \<open>
  OpenCV's conversion of one 8-bit pixel for \<^verbatim>\<open>COLOR_BGR2HSV\<close>, in its fixed-point
  arithmetic: the value is the largest byte, the saturation and the hue come from two
  division tables scaled by \<open>2 ^ 12\<close> (\<open>255 * 4096 / v\<close> and \<open>180 * 4096 / (6 * diff)\<close>, rounded
  to nearest), and the hue is in half degrees. It serves to run the model on concrete
  pages; the theorems on the classifier hold for every conversion.
\<close>

definition hsv_8u :: hsv_fn where
  "hsv_8u bgr =
     (case bgr of (b8, g8, r8) \<Rightarrow>
        let b = int (unat b8); g = int (unat g8); r = int (unat r8);
            v = max b (max g r); vmin = min b (min g r); diff = v - vmin;
            sdiv = (if v = 0 then 0 else (2 * 1044480 + v) div (2 * v));
            hdiv = (if diff = 0 then 0 else (2 * 122880 + diff) div (2 * diff));
            s = (diff * sdiv + 2048) div 4096;
            h0 = (if v = r then g - b
                  else if v = g then b - r + 2 * diff
                  else r - g + 4 * diff);
            h1 = (h0 * hdiv + 2048) div 4096;
            h = (if h1 < 0 then h1 + 180 else h1)
        in (of_int h, of_int s, of_int v))"

section \<open>Document conversion\<close>

text \<open>
  What the operating system answers to \<^verbatim>\<open>convert_doc_to_pdf\<close>: the platform name, which
  commands \<^verbatim>\<open>shutil.which\<close> finds, whether \<^verbatim>\<open>os.makedirs\<close> raises, how
  \<^verbatim>\<open>subprocess.run(cmd, check=True, ...)\<close> ends, and whether the expected output file
  exists afterwards. \<open>pdf_path\<close> is the path
  \<^verbatim>\<open>os.path.join(output_dir, base_name + '.pdf')\<close>. The standard error stream of a failed
  run is \<open>None\<close> when it is empty or absent, and otherwise what \<^verbatim>\<open>decode()\<close> gives.
\<close>

datatype run_outcome =
    RunOk
  | CalledProcessError "(py_error + string) option"
  | RunRaised py_error

record conv_env =
  platform_system :: string
  which :: "string \<Rightarrow> bool"
  makedirs :: "py_error option"
  run :: run_outcome
  pdf_exists :: bool
  pdf_path :: string

definition possible_cmds :: "conv_env \<Rightarrow> string list" where
  "possible_cmds env =
     [''soffice'', ''lowriter'', ''libreoffice'']
     @ (if platform_system env = ''Windows''
        then [''C:'' @ [CHR 0x5C] @ ''Program Files'' @ [CHR 0x5C] @ ''LibreOffice''
              @ [CHR 0x5C] @ ''program'' @ [CHR 0x5C] @ ''soffice.exe'']
        else [])"

text \<open>
  \<^verbatim>\<open>convert_doc_to_pdf\<close>. The \<^verbatim>\<open>finally\<close> clause removes the profile directory with
  \<^verbatim>\<open>ignore_errors=True\<close> and changes no result.
\<close>

definition convert_doc_to_pdf :: "conv_env \<Rightarrow> py_error + string" where
  "convert_doc_to_pdf env =
     (case find (which env) (possible_cmds env) of
        None \<Rightarrow> Inl EnvironmentError
      | Some libreoffice_cmd \<Rightarrow>
          (case makedirs env of
             Some e \<Rightarrow> Inl e
           | None \<Rightarrow>
               (case run env of
                  RunOk \<Rightarrow> if pdf_exists env then Inr (pdf_path env) else Inl FileNotFoundError
                | CalledProcessError err \<Rightarrow>
                    (case err of
                       None \<Rightarrow> Inl (RuntimeError ''LibreOffice conversion failed: Unknown Error'')
                     | Some (Inl e) \<Rightarrow> Inl e
                     | Some (Inr error_msg) \<Rightarrow>
                         Inl (RuntimeError (''LibreOffice conversion failed: '' @ error_msg)))
                | RunRaised e \<Rightarrow> Inl e)))"

section \<open>File names\<close>

definition ALLOWED_EXTENSIONS_DOC :: "string list" where
  "ALLOWED_EXTENSIONS_DOC = [''pdf'', ''docx'', ''doc'']"

definition ALLOWED_EXTENSIONS_IMG :: "string list" where
  "ALLOWED_EXTENSIONS_IMG = [''jpg'', ''jpeg'', ''png'']"

text \<open>\<^verbatim>\<open>s.rsplit('.', 1)\<close>: one split at the last dot, the whole string when it has none.\<close>

definition rsplit_dot :: "string \<Rightarrow> string list" where
  "rsplit_dot s =
     (if CHR ''.'' \<in> set s
      then [rev (tl (dropWhile (\<lambda>c. c \<noteq> CHR ''.'') (rev s))),
            rev (takeWhile (\<lambda>c. c \<noteq> CHR ''.'') (rev s))]
      else [s])"

text \<open>\<^verbatim>\<open>s.lower()\<close> on the ASCII letters.\<close>

definition lower_char :: "char \<Rightarrow> char" where
  "lower_char c =
     (if (65::nat) \<le> of_char c \<and> of_char c \<le> (90::nat) then char_of (of_char c + (32::nat)) else c)"

definition lower :: "string \<Rightarrow> string" where
  "lower s = map lower_char s"

text \<open>\<^verbatim>\<open>filename.rsplit('.', 1)[1].lower()\<close>: \<^verbatim>\<open>IndexError\<close> when the name has no dot.\<close>

definition extension :: "string \<Rightarrow> py_error + string" where
  "extension name =
     (case rsplit_dot name of [stem, ext] \<Rightarrow> Inr (lower ext) | _ \<Rightarrow> Inl IndexError)"

definition allowed_file :: "string \<Rightarrow> bool" where
  "allowed_file name =
     (CHR ''.'' \<in> set name
      \<and> (case extension name of
           Inl e \<Rightarrow> False
         | Inr ext \<Rightarrow> ext \<in> set ALLOWED_EXTENSIONS_DOC \<or> ext \<in> set ALLOWED_EXTENSIONS_IMG))"

definition get_file_type :: "string \<Rightarrow> py_error + string" where
  "get_file_type name =
     bind_exc (extension name) (\<lambda>ext.
       if ext \<in> set ALLOWED_EXTENSIONS_IMG then Inr ''image'' else Inr ''document'')"

section \<open>Per-file processing\<close>

text \<open>
  The dicts of the result: one entry per classified page (its key \<^verbatim>\<open>color\<close> is the field
  \<open>page_color\<close>) and one result per file (its key \<^verbatim>\<open>type\<close> is the field \<open>file_type\<close>).
\<close>

record page_entry =
  page :: nat
  page_color :: string
  price :: json
  price_bnw :: json
  percentage :: rat

record result_entry =
  filename :: string
  file_type :: string
  total_pages :: nat
  total_price :: json
  total_price_bnw :: json
  colors :: "page_entry list"

text \<open>
  What the outside world answers while one file is processed: the conversion
  environment, the result of \<^verbatim>\<open>cv2.imread(filepath)\<close> (\<open>None\<close> for an unreadable image), and
  the result of \<^verbatim>\<open>fitz.open(processing_path)\<close>: an exception, or a document. A document
  answers \<^verbatim>\<open>doc.page_count\<close> with the number its page tree declares, and
  \<^verbatim>\<open>enumerate(doc)\<close> with the pages it can deliver, in order, each with the outcome of
  loading it and of \<^verbatim>\<open>page.get_pixmap(matrix=fitz.Matrix(1.5, 1.5))\<close>. The two agree on a
  well-formed file and need not on a damaged one.
\<close>

record pdf_doc =
  page_count :: nat
  pages :: "(py_error + pixmap) list"

record file_env =
  conversion :: conv_env
  imread :: "ndarray option"
  fitz_open :: "py_error + pdf_doc"

text \<open>
  How the function body ended: it ran to its last statement, it left through the
  \<^verbatim>\<open>return result_entry\<close> of the conversion handler, or an exception reached the handler
  \<^verbatim>\<open>except Exception\<close> of the outer \<^verbatim>\<open>try\<close>.
\<close>

datatype exit_kind = Completed | ConversionFailed py_error | Caught py_error

text \<open>Lines 219 to 224: the rendered page as the array handed to the classifier.\<close>

definition pixmap_to_bgr :: "hsv_fn \<Rightarrow> pixmap \<Rightarrow> py_error + ndarray" where
  "pixmap_to_bgr hsv pix =
     (if pix_n pix < 3
      then bind_exc (reshape pix) (\<lambda>img_array. cvtColor hsv img_array COLOR_GRAY2BGR)
      else bind_exc (reshape pix) (\<lambda>img_array. cvtColor hsv img_array COLOR_RGB2BGR))"

text \<open>
  The branch for an image. The result dict is mutated in place, so the state returned
  with an exception is the dict as the exception found it.
\<close>

definition process_image ::
  "hsv_fn \<Rightarrow> file_env \<Rightarrow> price_config \<Rightarrow> result_entry \<Rightarrow> result_entry \<times> py_error option" where
  "process_image hsv env price_config result_entry =
     (case imread env of
        None \<Rightarrow> (result_entry, Some ValueError)
      | Some img \<Rightarrow>
          (let r1 = result_entry\<lparr>total_pages := 1\<rparr> in
           case analyze_image_array hsv img of
             Inl e \<Rightarrow> (r1, Some e)
           | Inr pct \<Rightarrow>
               (case calculate_price_for_percentage pct price_config of
                  (category, prc) \<Rightarrow>
                    (r1\<lparr>total_price := prc,
                        total_price_bnw := bnw price_config,
                        colors := colors r1 @
                          [\<lparr>page = 1, page_color = category, price = prc,
                            price_bnw = bnw price_config, percentage = pct\<rparr>]\<rparr>,
                     None))))"

text \<open>
  The loop \<^verbatim>\<open>for page_num, page in enumerate(doc)\<close>, with the two running totals. It ends
  with the totals, or with the exception that stopped it.
\<close>

fun pdf_pages ::
  "hsv_fn \<Rightarrow> price_config \<Rightarrow> nat \<Rightarrow> (py_error + pixmap) list \<Rightarrow> json \<Rightarrow> json \<Rightarrow> result_entry
   \<Rightarrow> result_entry \<times> (py_error + json \<times> json)" where
  "pdf_pages hsv price_config page_num [] total_doc_price total_doc_price_bnw result_entry =
     (result_entry, Inr (total_doc_price, total_doc_price_bnw))"
| "pdf_pages hsv price_config page_num (pg # rest) total_doc_price total_doc_price_bnw result_entry =
     (case bind_exc pg (pixmap_to_bgr hsv) of
        Inl e \<Rightarrow> (result_entry, Inl e)
      | Inr img_array \<Rightarrow>
          (case analyze_image_array hsv img_array of
             Inl e \<Rightarrow> (result_entry, Inl e)
           | Inr pct \<Rightarrow>
               (case calculate_price_for_percentage pct price_config of
                  (category, prc) \<Rightarrow>
                    (case py_add total_doc_price prc of
                       Inl e \<Rightarrow> (result_entry, Inl e)
                     | Inr tp \<Rightarrow>
                         (case py_add total_doc_price_bnw (bnw price_config) of
                            Inl e \<Rightarrow> (result_entry, Inl e)
                          | Inr tb \<Rightarrow>
                              pdf_pages hsv price_config (page_num + 1) rest tp tb
                                (result_entry\<lparr>colors := colors result_entry @
                                   [\<lparr>page = page_num + 1, page_color = category, price = prc,
                                     price_bnw = bnw price_config, percentage = pct\<rparr>]\<rparr>))))))"

definition process_pdf ::
  "hsv_fn \<Rightarrow> file_env \<Rightarrow> price_config \<Rightarrow> result_entry \<Rightarrow> result_entry \<times> py_error option" where
  "process_pdf hsv env price_config result_entry =
     (case fitz_open env of
        Inl e \<Rightarrow> (result_entry, Some e)
      | Inr doc \<Rightarrow>
          (case pdf_pages hsv price_config 0 (pages doc) (JInt 0) (JInt 0)
                  (result_entry\<lparr>total_pages := page_count doc\<rparr>) of
             (r, Inl e) \<Rightarrow> (r, Some e)
           | (r, Inr (total_doc_price, total_doc_price_bnw)) \<Rightarrow>
               (r\<lparr>total_price := total_doc_price, total_price_bnw := total_doc_price_bnw\<rparr>,
                None)))"

text \<open>
  The two branches inside the outer \<^verbatim>\<open>try\<close> (\<^verbatim>\<open>if file_type == 'image'\<close>), with the way
  they end.
\<close>

definition process_branches ::
  "hsv_fn \<Rightarrow> file_env \<Rightarrow> string \<Rightarrow> price_config \<Rightarrow> result_entry
   \<Rightarrow> result_entry \<times> exit_kind" where
  "process_branches hsv env ftype price_config result_entry =
     (case (if ftype = ''image'' then process_image hsv env price_config result_entry
            else process_pdf hsv env price_config result_entry) of
        (r, None) \<Rightarrow> (r, Completed)
      | (r, Some e) \<Rightarrow> (r, Caught e))"

text \<open>
  \<^verbatim>\<open>process_file_logic\<close> with the way it ended. The two \<^verbatim>\<open>rsplit\<close> lines stand before the
  \<^verbatim>\<open>try\<close>, so their \<^verbatim>\<open>IndexError\<close> leaves the function. The \<^verbatim>\<open>finally\<close> clause removes the
  converted file inside its own \<^verbatim>\<open>try\<close> and changes no result. The argument \<open>filepath\<close>
  only names what \<open>env\<close> answers for.
\<close>

definition process_file_run ::
  "hsv_fn \<Rightarrow> file_env \<Rightarrow> string \<Rightarrow> price_config \<Rightarrow> py_error + result_entry \<times> exit_kind" where
  "process_file_run hsv env name price_config =
     bind_exc (get_file_type name) (\<lambda>ftype.
     bind_exc (extension name) (\<lambda>ext.
       let result_entry = \<lparr>filename = name, file_type = ftype, total_pages = 0,
                           total_price = JInt 0, total_price_bnw = JInt 0, colors = []\<rparr>
       in if ext \<in> set [''doc'', ''docx'']
          then (case convert_doc_to_pdf (conversion env) of
                  Inl e \<Rightarrow> Inr (result_entry, ConversionFailed e)
                | Inr processing_path \<Rightarrow>
                    Inr (process_branches hsv env ftype price_config result_entry))
          else Inr (process_branches hsv env ftype price_config result_entry)))"

text \<open>\<^verbatim>\<open>process_file_logic\<close> returns the dict alone.\<close>

definition process_file_logic ::
  "hsv_fn \<Rightarrow> file_env \<Rightarrow> string \<Rightarrow> price_config \<Rightarrow> py_error + result_entry" where
  "process_file_logic hsv env name price_config =
     bind_exc (process_file_run hsv env name price_config) (\<lambda>(r, how). Inr r)"

section \<open>Batch loop\<close>

text \<open>
  One uploaded file: its name as sent, whether \<^verbatim>\<open>file.save\<close> raises, and the world of its
  processing. A \<^verbatim>\<open>FileStorage\<close> is true when its name is not empty.
\<close>

record upload =
  upload_name :: string
  save_error :: "py_error option"
  world :: file_env

text \<open>
  The loop of \<^verbatim>\<open>detect_colors\<close> over the uploaded files. \<open>secure_filename\<close> is werkzeug's
  function, a parameter here. An exception leaves the loop for the handler that answers
  with status 500.
\<close>

fun detect_loop ::
  "hsv_fn \<Rightarrow> (string \<Rightarrow> string) \<Rightarrow> price_config \<Rightarrow> upload list \<Rightarrow> result_entry list
   \<Rightarrow> py_error + result_entry list" where
  "detect_loop hsv secure_filename current_prices [] response_data = Inr response_data"
| "detect_loop hsv secure_filename current_prices (file # rest) response_data =
     (if upload_name file \<noteq> [] \<and> allowed_file (upload_name file)
      then (case save_error file of
              Some e \<Rightarrow> Inl e
            | None \<Rightarrow>
                (case process_file_logic hsv (world file) (secure_filename (upload_name file))
                        current_prices of
                   Inl e \<Rightarrow> Inl e
                 | Inr file_result \<Rightarrow>
                     detect_loop hsv secure_filename current_prices rest
                       (response_data @ [file_result])))
      else detect_loop hsv secure_filename current_prices rest response_data)"

section \<open>Tier resolution: properties\<close>

text \<open>
  C1. The resolver is a total function with three buckets: a percentage \<open>p \<le> 0\<close> gives
  tier black_and_white at the table's bnw price, \<open>0 < p \<le> 50\<close> gives tier color at the
  color price, \<open>p > 50\<close> gives tier full_color at the full_color price; in particular
  0 resolves to black_and_white, 50 to color, 50.01 and 100 to full_color.
\<close>

theorem resolve_three_buckets:
  "(p \<le> 0 \<longrightarrow> calculate_price_for_percentage p t = (''black_and_white'', bnw t))
   \<and> (0 < p \<and> p \<le> 50 \<longrightarrow> calculate_price_for_percentage p t = (''color'', color t))
   \<and> (50 < p \<longrightarrow> calculate_price_for_percentage p t = (''full_color'', full_color t))
   \<and> fst (calculate_price_for_percentage 0 t) = ''black_and_white''
   \<and> fst (calculate_price_for_percentage 50 t) = ''color''
   \<and> fst (calculate_price_for_percentage (5001 / 100) t) = ''full_color''
   \<and> fst (calculate_price_for_percentage 100 t) = ''full_color''"
  by (simp add: calculate_price_for_percentage_def)

theorem resolve_three_buckets_witness:
  "(-1::rat) \<le> 0
   \<and> calculate_price_for_percentage (-1) default_prices = (''black_and_white'', JInt 500)
   \<and> (0::rat) < 25 \<and> (25::rat) \<le> 50
   \<and> calculate_price_for_percentage 25 default_prices = (''color'', JInt 1000)
   \<and> (50::rat) < 75
   \<and> calculate_price_for_percentage 75 default_prices = (''full_color'', JInt 1500)"
  using resolve_three_buckets [of "-1" default_prices]
    resolve_three_buckets [of 25 default_prices]
    resolve_three_buckets [of 75 default_prices]
  by (simp add: default_prices_def)

section \<open>Pricing configuration: properties\<close>

lemma dict_get_Inr_iff: "dict_get j k d = Inr v \<Longrightarrow> \<exists>kvs. j = JObj kvs"
  by (cases j) simp_all

lemma fetch_body_exception_keeps:
  "snd (fetch_body prices outcome) = Some e \<Longrightarrow> fst (fetch_body prices outcome) = prices"
  by (auto simp: fetch_body_def bind_exc_def split: fetch_outcome.splits sum.splits bool.splits if_splits
      dest!: dict_get_Inr_iff)

text \<open>
  C4. Every failed fetch gives the default table \<open>{bnw: 500, color: 1000, full_color: 1500}\<close>
  and the provider returns it instead of raising: when \<^verbatim>\<open>requests.get\<close> raises (timeout,
  unreachable host), when the status is not 200, when the body cannot be decoded, when the
  success flag is falsy, when \<^verbatim>\<open>data\<close> or \<^verbatim>\<open>data.prices\<close> is missing, and whenever any
  exception ends the body of the \<^verbatim>\<open>try\<close>.
\<close>

theorem fetch_failure_gives_defaults:
  "fetch_pricing_config (GetRaised e) = Inr default_prices
   \<and> (status_code \<noteq> 200 \<longrightarrow> fetch_pricing_config (GotResponse status_code body) = Inr default_prices)
   \<and> fetch_pricing_config (GotResponse 200 (Inl e)) = Inr default_prices
   \<and> (dict_get payload ''success'' JNull = Inr s \<and> \<not> truthy s \<longrightarrow>
        fetch_pricing_config (GotResponse 200 (Inr payload)) = Inr default_prices)
   \<and> (map_of obj ''data'' = None \<longrightarrow>
        fetch_pricing_config (GotResponse 200 (Inr (JObj obj))) = Inr default_prices)
   \<and> (map_of obj' ''data'' = Some (JObj d) \<and> map_of d ''prices'' = None \<longrightarrow>
        fetch_pricing_config (GotResponse 200 (Inr (JObj obj'))) = Inr default_prices)
   \<and> (snd (fetch_body default_prices outcome) = Some e \<longrightarrow>
        fetch_pricing_config outcome = Inr default_prices)"
proof -
  have raised: "fetch_pricing_config (GetRaised e) = Inr default_prices"
    by (simp add: fetch_pricing_config_def fetch_body_def)
  have status: "status_code \<noteq> 200 \<longrightarrow>
      fetch_pricing_config (GotResponse status_code body) = Inr default_prices"
    by (simp add: fetch_pricing_config_def fetch_body_def)
  have undecodable: "fetch_pricing_config (GotResponse 200 (Inl e)) = Inr default_prices"
    by (simp add: fetch_pricing_config_def fetch_body_def)
  have falsy: "dict_get payload ''success'' JNull = Inr s \<and> \<not> truthy s \<longrightarrow>
      fetch_pricing_config (GotResponse 200 (Inr payload)) = Inr default_prices"
    by (simp add: fetch_pricing_config_def fetch_body_def payload_ok_def bind_exc_def)
  have no_data: "map_of obj ''data'' = None \<longrightarrow>
      fetch_pricing_config (GotResponse 200 (Inr (JObj obj))) = Inr default_prices"
    by (simp add: fetch_pricing_config_def fetch_body_def payload_ok_def bind_exc_def)
  have no_prices: "map_of obj' ''data'' = Some (JObj d) \<and> map_of d ''prices'' = None \<longrightarrow>
      fetch_pricing_config (GotResponse 200 (Inr (JObj obj'))) = Inr default_prices"
    by (simp add: fetch_pricing_config_def fetch_body_def payload_ok_def bind_exc_def)
  have exc: "snd (fetch_body default_prices outcome) = Some e \<longrightarrow>
      fetch_pricing_config outcome = Inr default_prices"
    by (simp add: fetch_pricing_config_def fetch_body_exception_keeps)
  from raised status undecodable falsy no_data no_prices exc show ?thesis by blast
qed

text \<open>
  The theorem at a 503 response, a connection timeout, a false success flag, a payload
  without \<^verbatim>\<open>data\<close>, one without \<^verbatim>\<open>data.prices\<close>, and one whose \<^verbatim>\<open>data.prices\<close> is null (the
  \<^verbatim>\<open>get\<close> on it raises \<^verbatim>\<open>AttributeError\<close>).
\<close>

theorem fetch_failure_gives_defaults_witness:
  "(503::int) \<noteq> 200
   \<and> fetch_pricing_config (GotResponse 503 (Inr JNull)) = Inr default_prices
   \<and> fetch_pricing_config (GetRaised (OtherError ''ConnectTimeout'')) = Inr default_prices
   \<and> dict_get (JObj [(''success'', JBool False)]) ''success'' JNull = Inr (JBool False)
   \<and> \<not> truthy (JBool False)
   \<and> fetch_pricing_config (GotResponse 200 (Inr (JObj [(''success'', JBool False)])))
       = Inr default_prices
   \<and> map_of [(''success'', JBool True)] ''data'' = None
   \<and> fetch_pricing_config (GotResponse 200 (Inr (JObj [(''success'', JBool True)])))
       = Inr default_prices
   \<and> map_of [(''success'', JBool True), (''data'', JObj [])] ''data'' = Some (JObj [])
   \<and> map_of ([] :: (string \<times> json) list) ''prices'' = None
   \<and> fetch_pricing_config
         (GotResponse 200 (Inr (JObj [(''success'', JBool True), (''data'', JObj [])])))
       = Inr default_prices
   \<and> snd (fetch_body default_prices
         (GotResponse 200
            (Inr (JObj [(''success'', JBool True), (''data'', JObj [(''prices'', JNull)])]))))
       = Some AttributeError
   \<and> fetch_pricing_config
         (GotResponse 200
            (Inr (JObj [(''success'', JBool True), (''data'', JObj [(''prices'', JNull)])])))
       = Inr default_prices"
proof -
  let ?falsy = "JObj [(''success'', JBool False)]"
  let ?bare = "[(''success'', JBool True)]"
  let ?empty = "[(''success'', JBool True), (''data'', JObj [])]"
  let ?null = "GotResponse 200
     (Inr (JObj [(''success'', JBool True), (''data'', JObj [(''prices'', JNull)])]))"
  have h1: "(503::int) \<noteq> 200" by simp
  have h2: "dict_get ?falsy ''success'' JNull = Inr (JBool False) \<and> \<not> truthy (JBool False)"
    by simp
  have h3: "map_of ?bare ''data'' = None" by simp
  have h4: "map_of ?empty ''data'' = Some (JObj []) \<and> map_of ([] :: (string \<times> json) list) ''prices'' = None"
    by simp
  have h5: "snd (fetch_body default_prices ?null) = Some AttributeError"
    by (simp add: fetch_body_def payload_ok_def bind_exc_def)
  from fetch_failure_gives_defaults
    [of "OtherError ''ConnectTimeout''" 503 "Inr JNull" ?falsy "JBool False" ?bare ?empty "[]" ?null]
    h1 h2 h3 h4
  have "fetch_pricing_config (GotResponse 503 (Inr JNull)) = Inr default_prices"
    and "fetch_pricing_config (GetRaised (OtherError ''ConnectTimeout'')) = Inr default_prices"
    and "fetch_pricing_config (GotResponse 200 (Inr ?falsy)) = Inr default_prices"
    and "fetch_pricing_config (GotResponse 200 (Inr (JObj ?bare))) = Inr default_prices"
    and "fetch_pricing_config (GotResponse 200 (Inr (JObj ?empty))) = Inr default_prices"
    by blast+
  moreover from fetch_failure_gives_defaults [of AttributeError _ _ _ _ _ _ _ ?null] h5
  have "fetch_pricing_config ?null = Inr default_prices" by blast
  ultimately show ?thesis using h1 h2 h3 h4 h5 by blast
qed

text \<open>
  C7. Whatever the remote source answers, the provider returns a table whose full_color
  entry is 1500: the fetch can change the bnw and color entries only.
\<close>

theorem fetch_keeps_full_color:
  "\<exists>b c. fetch_pricing_config outcome = Inr \<lparr>bnw = b, color = c, full_color = JInt 1500\<rparr>"
  by (auto simp: fetch_pricing_config_def fetch_body_def default_prices_def
      split: fetch_outcome.splits sum.splits bool.splits)

text \<open>
  C10. For a response with status 200, a truthy success flag and an object at
  \<^verbatim>\<open>data.prices\<close>, the override goes key by key: bnw is the payload's bnw when it has one
  and 500 otherwise, color is the payload's color when it has one and 1000 otherwise.
\<close>

theorem fetch_override_per_key:
  assumes "map_of obj ''success'' = Some s" and "truthy s"
    and "map_of obj ''data'' = Some (JObj d)"
    and "map_of d ''prices'' = Some (JObj ps)"
  shows "fetch_pricing_config (GotResponse 200 (Inr (JObj obj))) =
     Inr \<lparr>bnw = (case map_of ps ''bnw'' of None \<Rightarrow> JInt 500 | Some v \<Rightarrow> v),
          color = (case map_of ps ''color'' of None \<Rightarrow> JInt 1000 | Some v \<Rightarrow> v),
          full_color = JInt 1500\<rparr>"
  using assms
  by (simp add: fetch_pricing_config_def fetch_body_def payload_ok_def bind_exc_def default_prices_def)

text \<open>
  The theorem at a partial payload, \<^verbatim>\<open>{"success": true, "data": {"prices": {"bnw": 700}}}\<close>:
  bnw becomes 700 and color keeps 1000.
\<close>

theorem fetch_override_per_key_witness:
  "map_of [(''success'', JBool True), (''data'', JObj [(''prices'', JObj [(''bnw'', JInt 700)])])]
      ''success'' = Some (JBool True)
   \<and> truthy (JBool True)
   \<and> map_of [(''success'', JBool True), (''data'', JObj [(''prices'', JObj [(''bnw'', JInt 700)])])]
      ''data'' = Some (JObj [(''prices'', JObj [(''bnw'', JInt 700)])])
   \<and> map_of [(''prices'', JObj [(''bnw'', JInt 700)])] ''prices'' = Some (JObj [(''bnw'', JInt 700)])
   \<and> fetch_pricing_config
        (GotResponse 200
           (Inr (JObj [(''success'', JBool True),
                       (''data'', JObj [(''prices'', JObj [(''bnw'', JInt 700)])])])))
     = Inr \<lparr>bnw = JInt 700, color = JInt 1000, full_color = JInt 1500\<rparr>"
proof -
  let ?ps = "[(''bnw'', JInt 700)]"
  let ?d = "[(''prices'', JObj ?ps)]"
  let ?obj = "[(''success'', JBool True), (''data'', JObj ?d)]"
  have h1: "map_of ?obj ''success'' = Some (JBool True)" by simp
  have h2: "truthy (JBool True)" by simp
  have h3: "map_of ?obj ''data'' = Some (JObj ?d)" by simp
  have h4: "map_of ?d ''prices'' = Some (JObj ?ps)" by simp
  from fetch_override_per_key [OF h1 h2 h3 h4]
  have "fetch_pricing_config (GotResponse 200 (Inr (JObj ?obj)))
        = Inr \<lparr>bnw = JInt 700, color = JInt 1000, full_color = JInt 1500\<rparr>"
    by simp
  with h1 h2 h3 h4 show ?thesis by blast
qed

section \<open>Pixel buffers: lemmas\<close>

lemma take_drop_concat_map:
  assumes "\<forall>x \<in> set xs. length (f x) = k" and "i < length xs"
  shows "take k (drop (i * k) (concat (map f xs))) = f (xs ! i)"
  using assms
proof (induction xs arbitrary: i)
  case Nil
  then show ?case by simp
next
  case (Cons x xs)
  show ?case
  proof (cases i)
    case 0
    with Cons.prems show ?thesis by simp
  next
    case (Suc j)
    with Cons.prems have "j < length xs" by simp
    moreover from Cons.prems have "\<forall>y \<in> set xs. length (f y) = k" by simp
    ultimately have "take k (drop (j * k) (concat (map f xs))) = f (xs ! j)"
      by (rule Cons.IH[rotated])
    moreover from Cons.prems have "length (f x) = k" by simp
    ultimately show ?thesis using Suc by (simp add: add.commute)
  qed
qed

lemma length_concat_map_const:
  "\<forall>x \<in> set xs. length (f x) = k \<Longrightarrow> length (concat (map f xs)) = length xs * k"
  by (induction xs) simp_all

lemma length_pixels [simp]: "length (pixels a) = rows a * cols a"
  by (simp add: pixels_def)

lemma length_convert_pixel [simp]: "length (convert_pixel hsv code p) = 3"
  by (simp add: convert_pixel_def split: color_code.splits prod.splits)

lemma pixels_converted:
  "pixels \<lparr>rows = rows src, cols = cols src, chans = 3,
           data = concat (map (convert_pixel hsv code) (pixels src))\<rparr>
   = map (convert_pixel hsv code) (pixels src)"
proof (rule nth_equalityI)
  show "length (pixels \<lparr>rows = rows src, cols = cols src, chans = 3,
           data = concat (map (convert_pixel hsv code) (pixels src))\<rparr>)
        = length (map (convert_pixel hsv code) (pixels src))"
    by simp
next
  fix i
  assume "i < length (pixels \<lparr>rows = rows src, cols = cols src, chans = 3,
           data = concat (map (convert_pixel hsv code) (pixels src))\<rparr>)"
  then have i: "i < length (pixels src)" by simp
  have "take 3 (drop (i * 3) (concat (map (convert_pixel hsv code) (pixels src))))
        = convert_pixel hsv code (pixels src ! i)"
    by (rule take_drop_concat_map) (use i in simp_all)
  with i show "pixels \<lparr>rows = rows src, cols = cols src, chans = 3,
           data = concat (map (convert_pixel hsv code) (pixels src))\<rparr> ! i
        = map (convert_pixel hsv code) (pixels src) ! i"
    by (simp add: pixels_def)
qed

lemma cvtColor_Inr:
  assumes "cvtColor hsv src code = Inr dst"
  shows "rows dst = rows src \<and> cols dst = cols src \<and> chans dst = 3
         \<and> length (data dst) = rows src * cols src * 3
         \<and> pixels dst = map (convert_pixel hsv code) (pixels src)
         \<and> accepts_channels code (chans src) \<and> 0 < rows src * cols src
         \<and> length (data src) = rows src * cols src * chans src"
proof -
  from assms have ok: "rows src * cols src * chans src \<noteq> 0"
      "length (data src) = rows src * cols src * chans src"
      "accepts_channels code (chans src)"
    and dst: "dst = \<lparr>rows = rows src, cols = cols src, chans = 3,
                data = concat (map (convert_pixel hsv code) (pixels src))\<rparr>"
    by (auto simp: cvtColor_def split: if_splits)
  have "length (data dst) = rows src * cols src * 3"
    unfolding dst by (simp add: length_concat_map_const [where k = 3])
  moreover have "pixels dst = map (convert_pixel hsv code) (pixels src)"
    unfolding dst by (rule pixels_converted)
  ultimately show ?thesis using ok dst by simp
qed

lemma cvtColor_total:
  assumes "accepts_channels code (chans src)" and "0 < rows src * cols src"
    and "length (data src) = rows src * cols src * chans src"
  shows "\<exists>dst. cvtColor hsv src code = Inr dst"
proof -
  from assms(1) have "0 < chans src"
    by (auto simp: accepts_channels_def split: color_code.splits)
  with assms show ?thesis by (simp add: cvtColor_def)
qed

section \<open>Color classifier: properties\<close>

lemma round_half_even_near:
  "of_int (round_half_even x) - x \<le> 1 / 2 \<and> x - of_int (round_half_even x) \<le> 1 / 2"
proof -
  define d where "d = x - of_int \<lfloor>x\<rfloor>"
  have d: "0 \<le> d" "d < 1" unfolding d_def by linarith+
  have x: "x = of_int \<lfloor>x\<rfloor> + d" by (simp add: d_def)
  have r: "round_half_even x = \<lfloor>x\<rfloor> \<and> d \<le> 1 / 2 \<or> round_half_even x = \<lfloor>x\<rfloor> + 1 \<and> 1 / 2 \<le> d"
    unfolding round_half_even_def Let_def d_def [symmetric] by auto
  then show ?thesis
  proof
    assume "round_half_even x = \<lfloor>x\<rfloor> \<and> d \<le> 1 / 2"
    with d x show ?thesis by simp
  next
    assume "round_half_even x = \<lfloor>x\<rfloor> + 1 \<and> 1 / 2 \<le> d"
    with d x show ?thesis by simp
  qed
qed

lemma round_half_even_lower: "of_int a \<le> x \<Longrightarrow> a \<le> round_half_even x"
proof -
  assume "of_int a \<le> x"
  then have "a \<le> \<lfloor>x\<rfloor>" by (simp add: le_floor_iff)
  then show ?thesis by (auto simp: round_half_even_def Let_def)
qed

lemma round_half_even_upper: "x \<le> of_int b \<Longrightarrow> round_half_even x \<le> b"
proof -
  assume xb: "x \<le> of_int b"
  then have fb: "\<lfloor>x\<rfloor> \<le> b" by (simp add: floor_le_iff)
  show ?thesis
  proof (cases "\<lfloor>x\<rfloor> = b")
    case True
    with xb have "x - of_int \<lfloor>x\<rfloor> \<le> 0" by simp
    then show ?thesis using True by (simp add: round_half_even_def Let_def)
  next
    case False
    with fb have "\<lfloor>x\<rfloor> + 1 \<le> b" by simp
    then show ?thesis using fb by (auto simp: round_half_even_def Let_def)
  qed
qed

lemma exponent_le:
  assumes "0 < x"
  shows "2 powi (exponent x) \<le> x"
proof -
  obtain a b where q: "quotient_of x = (a, b)" by (cases "quotient_of x")
  then have b: "0 < b" and x: "x = of_int a / of_int b"
    by (rule quotient_of_denom_pos, rule quotient_of_div)
  from assms b x have a: "0 < a" by (simp add: zero_less_divide_iff)
  define d where "d = bitlen a - bitlen b"
  show ?thesis
  proof (cases "2 powi d \<le> x")
    case True
    then show ?thesis by (simp add: exponent_def q d_def Let_def)
  next
    case False
    then have e: "exponent x = d - 1" by (simp add: exponent_def q d_def Let_def)
    from bitlen_bounds [OF a] have la: "2 ^ nat (bitlen a - 1) \<le> a" by simp
    from bitlen_bounds [OF b] have lb: "b < 2 ^ nat (bitlen b)" by simp
    from a have la1: "1 \<le> bitlen a" by (simp add: bitlen_alt_def)
    have "(2::rat) powi (d - 1) = 2 powi (bitlen a - 1) / 2 powi (bitlen b)"
      unfolding d_def using power_int_diff [of "2::rat" "bitlen a - 1" "bitlen b"] by (simp add: algebra_simps)
    also have "\<dots> = 2 ^ nat (bitlen a - 1) / 2 ^ nat (bitlen b)"
      using la1 bitlen_nonneg [of b] by (simp add: power_int_def)
    also have "\<dots> \<le> of_int a / 2 ^ nat (bitlen b)"
    proof -
      from la have "(of_int (2 ^ nat (bitlen a - 1)) :: rat) \<le> of_int a" by (simp only: of_int_le_iff)
      then show ?thesis by (simp add: divide_right_mono)
    qed
    also have "\<dots> \<le> of_int a / of_int b"
    proof -
      from lb have "(of_int b :: rat) \<le> of_int (2 ^ nat (bitlen b))" by (simp only: of_int_le_iff)
      moreover from b have "(0::rat) < of_int b" by simp
      moreover from a have "(0::rat) \<le> of_int a" by simp
      ultimately show ?thesis by (simp add: divide_left_mono)
    qed
    finally have "(2::rat) powi (d - 1) \<le> x" unfolding x .
    then show ?thesis by (simp only: e)
  qed
qed

lemma fl_nonneg: "0 \<le> x \<Longrightarrow> 0 \<le> fl x"
proof -
  assume x: "0 \<le> x"
  show ?thesis
  proof (cases "x = 0")
    case True
    then show ?thesis by (simp add: fl_def)
  next
    case False
    define q where "q = max (exponent \<bar>x\<bar> - 52) (- 1074)"
    have p: "(0::rat) < 2 powi q" by simp
    with x have "of_int 0 \<le> x / 2 powi q" by simp
    then have "0 \<le> round_half_even (x / 2 powi q)" by (rule round_half_even_lower)
    with p have "(0::rat) \<le> of_int (round_half_even (x / 2 powi q)) * 2 powi q" by simp
    with False show ?thesis by (simp add: fl_def q_def Let_def)
  qed
qed

lemma fl_le_int:
  assumes "0 \<le> x" and "x \<le> of_int B" and "B < 2 ^ 53"
  shows "fl x \<le> of_int B"
proof (cases "x = 0")
  case True
  with assms show ?thesis by (simp add: fl_def)
next
  case False
  with assms have pos: "0 < x" by simp
  define e where "e = exponent x"
  define q where "q = max (e - 52) (- 1074)"
  have e53: "e < 53"
  proof (rule ccontr)
    assume "\<not> e < 53"
    then have "53 \<le> e" by simp
    then have "(2::rat) ^ 53 \<le> 2 ^ nat e" by (intro power_increasing) simp_all
    also have "\<dots> = 2 powi e" using \<open>53 \<le> e\<close> by (simp add: power_int_def)
    also have "\<dots> \<le> x" unfolding e_def by (rule exponent_le [OF pos])
    also note assms(2)
    finally have "(2::rat) ^ 53 \<le> of_int B" .
    then have "(of_int (2 ^ 53) :: rat) \<le> of_int B" by simp
    then have "(2::int) ^ 53 \<le> B" by (simp only: of_int_le_iff)
    with assms(3) show False by simp
  qed
  then have q0: "q \<le> 0" by (simp add: q_def)
  define n where "n = nat (- q)"
  have pq: "(2::rat) powi q = 1 / 2 ^ n"
    using q0 by (cases "q = 0") (simp_all add: power_int_def n_def inverse_eq_divide power_one_over)
  have "x / 2 powi q = x * 2 ^ n" by (simp add: pq)
  also have "\<dots> \<le> of_int B * 2 ^ n" using assms(2) by simp
  also have "\<dots> = of_int (B * 2 ^ n)" by simp
  finally have "round_half_even (x / 2 powi q) \<le> B * 2 ^ n" by (rule round_half_even_upper)
  then have "(of_int (round_half_even (x / 2 powi q)) :: rat) \<le> of_int (B * 2 ^ n)"
    by (simp only: of_int_le_iff)
  then have "of_int (round_half_even (x / 2 powi q)) * (1 / 2 ^ n) \<le> (of_int (B * 2 ^ n) :: rat) * (1 / 2 ^ n)"
    by (intro mult_right_mono) simp_all
  then have "of_int (round_half_even (x / 2 powi q)) * 2 powi q \<le> (of_int B :: rat)"
    by (simp add: pq)
  with False pos show ?thesis by (simp add: fl_def q_def e_def Let_def)
qed

lemma percentage_range:
  assumes "c \<le> t"
  shows "0 \<le> float_mul (true_div c t) 100 \<and> float_mul (true_div c t) 100 \<le> 100"
proof -
  define q :: rat where "q = of_nat c / of_nat t"
  have q0: "0 \<le> q" by (simp add: q_def)
  have q1: "q \<le> of_int 1"
  proof (cases "t = 0")
    case True
    then show ?thesis by (simp add: q_def)
  next
    case False
    then have "(0::rat) < of_nat t" by simp
    moreover from assms have "(of_nat c :: rat) \<le> of_nat t" by (simp only: of_nat_le_iff)
    ultimately show ?thesis unfolding q_def by (simp add: divide_le_eq)
  qed
  have y0: "0 \<le> fl q" using q0 by (rule fl_nonneg)
  have "fl q \<le> of_int 1" using q0 q1 by (rule fl_le_int) simp
  then have y1: "fl q \<le> 1" by simp
  from y0 have p0: "0 \<le> fl q * 100" by simp
  from y1 have p1: "fl q * 100 \<le> of_int 100" by simp
  have "0 \<le> fl (fl q * 100)" using p0 by (rule fl_nonneg)
  moreover have "fl (fl q * 100) \<le> of_int 100" using p0 p1 by (rule fl_le_int) simp
  ultimately show ?thesis by (simp add: float_mul_def true_div_def q_def)
qed

lemma py_round2_props:
  assumes "0 \<le> p" and "p \<le> 100"
  shows "0 \<le> py_round p 2" and "py_round p 2 \<le> 100"
    and "\<exists>k::int. 0 \<le> k \<and> k \<le> 10000 \<and> py_round p 2 = fl (of_int k / 100)
           \<and> \<bar>of_int k / 100 - p\<bar> \<le> 1 / 200"
proof -
  let ?k = "round_half_even (p * 100)"
  have eq: "py_round p 2 = fl (of_int ?k / 100)" by (simp add: py_round_def)
  from assms have "of_int 0 \<le> p * 100" by simp
  then have k0: "0 \<le> ?k" by (rule round_half_even_lower)
  from assms have "p * 100 \<le> of_int 10000" by simp
  then have k1: "?k \<le> 10000" by (rule round_half_even_upper)
  from k0 have d0: "(0::rat) \<le> of_int ?k / 100" by simp
  from k1 have "(of_int ?k :: rat) \<le> 10000" by linarith
  then have d1: "(of_int ?k :: rat) / 100 \<le> of_int 100" by simp
  show "0 \<le> py_round p 2" unfolding eq using d0 by (rule fl_nonneg)
  have "fl (of_int ?k / 100) \<le> of_int 100" using d0 d1 by (rule fl_le_int) simp
  then show "py_round p 2 \<le> 100" by (simp add: eq)
  from round_half_even_near [of "p * 100"]
  have "of_int ?k / 100 - p \<le> 1 / 200" and "p - of_int ?k / 100 \<le> 1 / 200" by linarith+
  then have "\<bar>of_int ?k / 100 - p\<bar> \<le> 1 / 200" unfolding abs_le_iff by linarith
  with k0 k1 eq show "\<exists>k::int. 0 \<le> k \<and> k \<le> 10000 \<and> py_round p 2 = fl (of_int k / 100)
           \<and> \<bar>of_int k / 100 - p\<bar> \<le> 1 / 200" by blast
qed

lemma channel_1_of_hsv:
  assumes "cvtColor hsv img COLOR_BGR2HSV = Inr hsv_img"
  shows "channel hsv_img 1 = Inr (map (saturation hsv) (pixels img))"
proof -
  from cvtColor_Inr [OF assms]
  have "chans hsv_img = 3" and "pixels hsv_img = map (convert_pixel hsv COLOR_BGR2HSV) (pixels img)"
    by simp_all
  moreover have "(\<lambda>p. convert_pixel hsv COLOR_BGR2HSV p ! 1) = saturation hsv"
    by (rule ext) (simp add: convert_pixel_def saturation_def split: prod.splits)
  ultimately show ?thesis by (simp add: channel_def comp_def)
qed

lemma analyze_body_value:
  assumes "cvtColor hsv img COLOR_BGR2HSV = Inr hsv_img"
  shows "analyze_body hsv img =
           Inr (py_round (float_mul (true_div (colored_count hsv img) (rows img * cols img)) 100) 2)"
proof -
  from cvtColor_Inr [OF assms] have pos: "0 < rows img * cols img" by simp
  have "length (filter (\<lambda>s. SATURATION_THRESHOLD < s) (map (saturation hsv) (pixels img)))
        = colored_count hsv img"
  proof -
    have "(\<lambda>p. SATURATION_THRESHOLD < saturation hsv p) = colored hsv"
      by (rule ext) (simp add: colored_def SATURATION_THRESHOLD_def)
    then show ?thesis by (simp add: filter_map comp_def colored_count_def)
  qed
  moreover note channel_1_of_hsv [OF assms]
  ultimately show ?thesis
    unfolding analyze_body_def assms using pos
    by (simp add: bind_exc_def del: One_nat_def)
qed

lemma colored_count_le: "colored_count hsv img \<le> rows img * cols img"
proof -
  have "colored_count hsv img \<le> length (pixels img)"
    unfolding colored_count_def by (rule length_filter_le)
  then show ?thesis by simp
qed

text \<open>
  C2. On a 3-channel page the classifier returns 0 for a page without pixels. Otherwise it
  counts the pixels whose saturation is strictly above 20, divides the count by the
  number of pixels, multiplies by 100 and rounds to two decimals, each step in double
  precision as the source computes it: the result is the double nearest to a whole number
  of hundredths \<open>k / 100\<close>, at most 0.005 from the percentage it rounds. What it returns lies
  between 0 and 100.
\<close>

theorem classifier_percentage:
  assumes "chans img = 3" and "length (data img) = rows img * cols img * chans img"
  shows "analyze_image_array hsv img =
           Inr (if rows img * cols img = 0 then 0
                else py_round
                       (float_mul (true_div (colored_count hsv img) (rows img * cols img)) 100) 2)
     \<and> (\<exists>k::int. 0 \<le> k \<and> k \<le> 10000
           \<and> py_round (float_mul (true_div (colored_count hsv img) (rows img * cols img)) 100) 2
               = fl (of_int k / 100)
           \<and> \<bar>of_int k / 100
                - float_mul (true_div (colored_count hsv img) (rows img * cols img)) 100\<bar>
               \<le> 1 / 200)
     \<and> (\<forall>pct. analyze_image_array hsv img = Inr pct \<longrightarrow> 0 \<le> pct \<and> pct \<le> 100)"
proof -
  let ?p = "float_mul (true_div (colored_count hsv img) (rows img * cols img)) 100"
  from percentage_range [OF colored_count_le, of hsv img]
  have "0 \<le> ?p" and "?p \<le> 100" by simp_all
  note rounded = py_round2_props [OF this]
  have val: "analyze_image_array hsv img =
           Inr (if rows img * cols img = 0 then 0 else py_round ?p 2)"
  proof (cases "rows img * cols img = 0")
    case True
    then have "cvtColor hsv img COLOR_BGR2HSV = Inl cv2_error"
      by (auto simp: cvtColor_def)
    then have "analyze_image_array hsv img = Inr 0"
      by (simp add: analyze_image_array_def analyze_body_def bind_exc_def)
    with True show ?thesis by simp
  next
    case False
    with assms obtain hsv_img where "cvtColor hsv img COLOR_BGR2HSV = Inr hsv_img"
      using cvtColor_total [of COLOR_BGR2HSV img hsv] by (auto simp: accepts_channels_def)
    then have "analyze_image_array hsv img = Inr (py_round ?p 2)"
      by (simp add: analyze_image_array_def analyze_body_value)
    with False show ?thesis by simp
  qed
  have "\<forall>pct. analyze_image_array hsv img = Inr pct \<longrightarrow> 0 \<le> pct \<and> pct \<le> 100"
    unfolding val using rounded(1,2) by simp
  with val rounded(3) show ?thesis by blast
qed

text \<open>
  The theorem at a page of three pixels with saturations 20, 21 and 0: only the second is
  colored, and the result is the double 33.33.
\<close>

theorem classifier_percentage_witness:
  "chans \<lparr>rows = 1, cols = 3, chans = 3, data = [235, 235, 255, 234, 234, 255, 255, 255, 255]\<rparr> = 3
   \<and> map (saturation hsv_8u)
        (pixels \<lparr>rows = 1, cols = 3, chans = 3, data = [235, 235, 255, 234, 234, 255, 255, 255, 255]\<rparr>)
       = [20, 21, 0]
   \<and> analyze_image_array hsv_8u
        \<lparr>rows = 1, cols = 3, chans = 3, data = [235, 235, 255, 234, 234, 255, 255, 255, 255]\<rparr>
       = Inr (fl (3333 / 100))"
proof -
  let ?img = "\<lparr>rows = 1, cols = 3, chans = 3,
                data = [235, 235, 255, 234, 234, 255, 255, 255, 255 :: byte]\<rparr>"
  have h1: "chans ?img = 3" by simp
  have h2: "length (data ?img) = rows ?img * cols ?img * chans ?img" by simp
  have sat: "map (saturation hsv_8u) (pixels ?img) = [20, 21, 0]" by code_simp
  have n1: "rows ?img * cols ?img \<noteq> 0" by simp
  have v1: "py_round (float_mul (true_div (colored_count hsv_8u ?img) (rows ?img * cols ?img)) 100) 2
            = fl (3333 / 100)" by code_simp
  from classifier_percentage [OF h1 h2, of hsv_8u]
  have "analyze_image_array hsv_8u ?img =
          Inr (if rows ?img * cols ?img = 0 then 0
               else py_round (float_mul (true_div (colored_count hsv_8u ?img)
                                                  (rows ?img * cols ?img)) 100) 2)"
    by (rule conjunct1)
  with n1 have "analyze_image_array hsv_8u ?img =
          Inr (py_round (float_mul (true_div (colored_count hsv_8u ?img)
                                             (rows ?img * cols ?img)) 100) 2)"
    by (simp only: if_False)
  then have r1: "analyze_image_array hsv_8u ?img = Inr (fl (3333 / 100))"
    by (simp only: v1)
  from h1 sat r1 show ?thesis by blast
qed

text \<open>
  The arithmetic is the source's, in doubles, and not that of the exact fractions. With 23
  colored pixels of 160 the exact share is 14.375; the double \<open>(23 / 160) * 100\<close> lies just
  below it and the result is 14.37.
\<close>

lemma percentage_in_doubles:
  "py_round (float_mul (true_div 23 160) 100) 2 = fl (1437 / 100)
   \<and> float_mul (true_div 23 160) 100 < 14375 / 1000"
  by code_simp

text \<open>
  C6. The classifier never raises: it always returns a percentage, and it returns 0
  whenever its body fails, in particular for a channel count other than 3 or 4 and for
  a buffer that does not match its shape.
\<close>

theorem classifier_never_raises:
  "(\<exists>pct. analyze_image_array hsv img = Inr pct)
   \<and> (analyze_body hsv img = Inl e \<longrightarrow> analyze_image_array hsv img = Inr 0)
   \<and> (chans img \<noteq> 3 \<and> chans img \<noteq> 4 \<longrightarrow> analyze_image_array hsv img = Inr 0)
   \<and> (length (data img) \<noteq> rows img * cols img * chans img \<longrightarrow>
        analyze_image_array hsv img = Inr 0)"
proof -
  have total: "\<exists>pct. analyze_image_array hsv img = Inr pct"
    by (cases "analyze_body hsv img") (simp_all add: analyze_image_array_def)
  have caught: "analyze_body hsv img = Inl e \<longrightarrow> analyze_image_array hsv img = Inr 0"
    by (simp add: analyze_image_array_def)
  have channels: "chans img \<noteq> 3 \<and> chans img \<noteq> 4 \<longrightarrow> analyze_image_array hsv img = Inr 0"
    by (simp add: analyze_image_array_def analyze_body_def cvtColor_def accepts_channels_def
        bind_exc_def)
  have corrupt: "length (data img) \<noteq> rows img * cols img * chans img \<longrightarrow>
      analyze_image_array hsv img = Inr 0"
    by (simp add: analyze_image_array_def analyze_body_def cvtColor_def bind_exc_def)
  from total caught channels corrupt show ?thesis by blast
qed

text \<open>
  The theorem at a 2-channel page and at a buffer of 5 bytes for a 2 by 2 page of 3
  channels.
\<close>

theorem classifier_never_raises_witness:
  "chans \<lparr>rows = 1, cols = 1, chans = 2, data = [128, 255]\<rparr> \<noteq> 3
   \<and> chans \<lparr>rows = 1, cols = 1, chans = 2, data = [128, 255]\<rparr> \<noteq> 4
   \<and> analyze_body hsv_8u \<lparr>rows = 1, cols = 1, chans = 2, data = [128, 255]\<rparr> = Inl cv2_error
   \<and> analyze_image_array hsv_8u \<lparr>rows = 1, cols = 1, chans = 2, data = [128, 255]\<rparr> = Inr 0
   \<and> length (data \<lparr>rows = 2, cols = 2, chans = 3, data = [1, 2, 3, 4, 5]\<rparr>)
       \<noteq> rows \<lparr>rows = 2, cols = 2, chans = 3, data = [1, 2, 3, 4, 5]\<rparr>
         * cols \<lparr>rows = 2, cols = 2, chans = 3, data = [1, 2, 3, 4, 5]\<rparr>
         * chans \<lparr>rows = 2, cols = 2, chans = 3, data = [1, 2, 3, 4, 5]\<rparr>
   \<and> analyze_image_array hsv_8u \<lparr>rows = 2, cols = 2, chans = 3, data = [1, 2, 3, 4, 5]\<rparr> = Inr 0"
proof -
  let ?two = "\<lparr>rows = 1, cols = 1, chans = 2, data = [128, 255 :: byte]\<rparr>"
  let ?cut = "\<lparr>rows = 2, cols = 2, chans = 3, data = [1, 2, 3, 4, 5 :: byte]\<rparr>"
  have h1: "chans ?two \<noteq> 3 \<and> chans ?two \<noteq> 4" by simp
  have h2: "analyze_body hsv_8u ?two = Inl cv2_error" by code_simp
  have h3: "length (data ?cut) \<noteq> rows ?cut * cols ?cut * chans ?cut" by simp
  from classifier_never_raises [of hsv_8u ?two cv2_error] h1 h2
  have "analyze_image_array hsv_8u ?two = Inr 0" by blast
  moreover from classifier_never_raises [of hsv_8u ?cut] h3
  have "analyze_image_array hsv_8u ?cut = Inr 0" by blast
  ultimately show ?thesis using h1 h2 h3 by blast
qed

section \<open>Channel normalisation: properties\<close>






text \<open>
  A pixmap with 2 channels or more than 4, which the call at line 217 does not produce, is
  rejected by \<^verbatim>\<open>cv2.cvtColor\<close>; the exception ends the processing of the file.
\<close>

lemma other_channel_counts_rejected:
  "pix_n pix \<noteq> 1 \<and> pix_n pix \<noteq> 3 \<and> pix_n pix \<noteq> 4 \<Longrightarrow> \<exists>e. pixmap_to_bgr hsv pix = Inl e"
  by (auto simp: pixmap_to_bgr_def reshape_def bind_exc_def cvtColor_def accepts_channels_def)

section \<open>Per-file processing: properties\<close>









text \<open>
  C3. The totals of a result are meant to be the sums over its page entries and
  \<open>total_pages\<close> their number, a failed file giving the degraded result. The code breaks
  this when an exception stops the page loop of a PDF: \<open>total_pages\<close> is already the page
  count, the entries of the pages done so far stay, and the totals are still 0. Below, the
  second page of a PDF cannot be rendered; and a table whose bnw price is the text
  \<^verbatim>\<open>"500"\<close> stops the loop at the first addition, before any entry.
\<close>

theorem partial_result_after_loop_failure:
  "process_file_logic hsv_8u
     \<lparr>conversion = \<lparr>platform_system = ''Linux'', which = (\<lambda>c. False), makedirs = None,
                     run = RunOk, pdf_exists = False, pdf_path = ''a.pdf''\<rparr>,
      imread = None,
      fitz_open = Inr \<lparr>page_count = 2,
                        pages = [Inr \<lparr>pix_n = 3, pix_h = 1, pix_w = 1, pix_samples = [255, 255, 255]\<rparr>,
                                 Inl (OtherError ''RuntimeError'')]\<rparr>\<rparr>
     ''a.pdf'' default_prices
   = Inr \<lparr>filename = ''a.pdf'', file_type = ''document'', total_pages = 2,
          total_price = JInt 0, total_price_bnw = JInt 0,
          colors = [\<lparr>page = 1, page_color = ''black_and_white'', price = JInt 500,
                     price_bnw = JInt 500, percentage = 0\<rparr>]\<rparr>
   \<and> process_file_logic hsv_8u
     \<lparr>conversion = \<lparr>platform_system = ''Linux'', which = (\<lambda>c. False), makedirs = None,
                     run = RunOk, pdf_exists = False, pdf_path = ''a.pdf''\<rparr>,
      imread = None,
      fitz_open = Inr \<lparr>page_count = 2,
                        pages = [Inr \<lparr>pix_n = 3, pix_h = 1, pix_w = 1, pix_samples = [255, 255, 255]\<rparr>,
                                 Inr \<lparr>pix_n = 3, pix_h = 1, pix_w = 1, pix_samples = [255, 255, 255]\<rparr>]\<rparr>\<rparr>
     ''a.pdf'' \<lparr>bnw = JStr ''500'', color = JInt 1000, full_color = JInt 1500\<rparr>
   = Inr \<lparr>filename = ''a.pdf'', file_type = ''document'', total_pages = 2,
          total_price = JInt 0, total_price_bnw = JInt 0, colors = []\<rparr>"
  by code_simp

lemma detect_loop_acc:
  "detect_loop hsv sec pc files acc
   = bind_exc (detect_loop hsv sec pc files []) (\<lambda>rs. Inr (acc @ rs))"
proof (induction files arbitrary: acc)
  case Nil
  then show ?case by (simp add: bind_exc_def)
next
  case (Cons up rest)
  note IH = Cons.IH
  show ?case
  proof (cases "upload_name up \<noteq> [] \<and> allowed_file (upload_name up)")
    case False
    then show ?thesis using IH [of acc] by auto
  next
    case True
    show ?thesis
    proof (cases "save_error up")
      case (Some e)
      with True show ?thesis by (simp add: bind_exc_def)
    next
      case None
      show ?thesis
      proof (cases "process_file_logic hsv (world up) (sec (upload_name up)) pc")
        case (Inl e)
        with True None show ?thesis by (simp add: bind_exc_def)
      next
        case (Inr res)
        have "detect_loop hsv sec pc (up # rest) acc = detect_loop hsv sec pc rest (acc @ [res])"
          using True None Inr by simp
        also have "\<dots> = bind_exc (detect_loop hsv sec pc rest []) (\<lambda>rs. Inr (acc @ res # rs))"
          using IH [of "acc @ [res]"] by simp
        also have "\<dots> = bind_exc (bind_exc (detect_loop hsv sec pc rest []) (\<lambda>rs. Inr ([res] @ rs)))
                            (\<lambda>rs. Inr (acc @ rs))"
          by (simp add: bind_exc_def split: sum.splits)
        also have "bind_exc (detect_loop hsv sec pc rest []) (\<lambda>rs. Inr ([res] @ rs))
                   = detect_loop hsv sec pc (up # rest) []"
          using True None Inr IH [of "[res]"] by simp
        finally show ?thesis .
      qed
    qed
  qed
qed

text \<open>
  C5. The conversion fails when no converter command is found, when the converter exits
  with an error, and when its output file is missing. For a \<^verbatim>\<open>doc\<close> or \<^verbatim>\<open>docx\<close> file whose
  conversion fails, the per-file processing returns the degraded result (no page, totals
  0, no entry) and does not raise. In the batch loop that result is appended after the
  results of the earlier files, and the later files give what they give on their own.
\<close>

theorem conversion_failure_degrades:
  "((find (which c) (possible_cmds c) = None \<or> (\<exists>err. run c = CalledProcessError err)
      \<or> (run c = RunOk \<and> \<not> pdf_exists c)) \<longrightarrow>
      (\<exists>e. convert_doc_to_pdf c = Inl e))
   \<and> (extension name = Inr ext \<and> (ext = ''doc'' \<or> ext = ''docx'')
        \<and> convert_doc_to_pdf (conversion env) = Inl e \<longrightarrow>
        process_file_logic hsv env name pc =
          Inr \<lparr>filename = name, file_type = ''document'', total_pages = 0,
               total_price = JInt 0, total_price_bnw = JInt 0, colors = []\<rparr>)
   \<and> (upload_name file \<noteq> [] \<and> allowed_file (upload_name file) \<and> save_error file = None
        \<and> extension (sec (upload_name file)) = Inr ext' \<and> (ext' = ''doc'' \<or> ext' = ''docx'')
        \<and> convert_doc_to_pdf (conversion (world file)) = Inl e' \<longrightarrow>
        detect_loop hsv sec pc (file # rest) acc =
          bind_exc (detect_loop hsv sec pc rest [])
            (\<lambda>rs. Inr (acc @ \<lparr>filename = sec (upload_name file), file_type = ''document'',
                              total_pages = 0, total_price = JInt 0, total_price_bnw = JInt 0,
                              colors = []\<rparr> # rs)))"
proof -
  have conv: "(find (which c) (possible_cmds c) = None \<or> (\<exists>err. run c = CalledProcessError err)
      \<or> (run c = RunOk \<and> \<not> pdf_exists c)) \<longrightarrow> (\<exists>e. convert_doc_to_pdf c = Inl e)"
    by (auto simp: convert_doc_to_pdf_def split: option.splits sum.splits run_outcome.splits)
  have one: "process_file_logic hsv env name pc =
          Inr \<lparr>filename = name, file_type = ''document'', total_pages = 0,
               total_price = JInt 0, total_price_bnw = JInt 0, colors = []\<rparr>"
    if "extension name = Inr ext" and "ext = ''doc'' \<or> ext = ''docx''"
      and "convert_doc_to_pdf (conversion env) = Inl e" for env name ext e
    using that
    by (auto simp: process_file_logic_def process_file_run_def get_file_type_def bind_exc_def
        ALLOWED_EXTENSIONS_IMG_def Let_def)
  have batch: "detect_loop hsv sec pc (file # rest) acc =
          bind_exc (detect_loop hsv sec pc rest [])
            (\<lambda>rs. Inr (acc @ \<lparr>filename = sec (upload_name file), file_type = ''document'',
                              total_pages = 0, total_price = JInt 0, total_price_bnw = JInt 0,
                              colors = []\<rparr> # rs))"
    if ok: "upload_name file \<noteq> []" "allowed_file (upload_name file)" "save_error file = None"
      and ext: "extension (sec (upload_name file)) = Inr ext'" "ext' = ''doc'' \<or> ext' = ''docx''"
      and fail: "convert_doc_to_pdf (conversion (world file)) = Inl e'"
  proof -
    let ?d = "\<lparr>filename = sec (upload_name file), file_type = ''document'',
                total_pages = 0, total_price = JInt 0, total_price_bnw = JInt 0, colors = []\<rparr>"
    have "detect_loop hsv sec pc (file # rest) acc = detect_loop hsv sec pc rest (acc @ [?d])"
      using ok one [OF ext fail] by simp
    also have "\<dots> = bind_exc (detect_loop hsv sec pc rest []) (\<lambda>rs. Inr ((acc @ [?d]) @ rs))"
      by (rule detect_loop_acc)
    finally show ?thesis by simp
  qed
  from conv one batch show ?thesis by blast
qed

text \<open>
  The theorem at a batch of a \<^verbatim>\<open>docx\<close> file with no converter installed, followed by a red
  image.
\<close>

theorem conversion_failure_degrades_witness:
  "find (which \<lparr>platform_system = ''Linux'', which = (\<lambda>c. False), makedirs = None,
                 run = RunOk, pdf_exists = False, pdf_path = ''cv.pdf''\<rparr>)
        (possible_cmds \<lparr>platform_system = ''Linux'', which = (\<lambda>c. False), makedirs = None,
                        run = RunOk, pdf_exists = False, pdf_path = ''cv.pdf''\<rparr>) = None
   \<and> convert_doc_to_pdf \<lparr>platform_system = ''Linux'', which = (\<lambda>c. False), makedirs = None,
                           run = RunOk, pdf_exists = False, pdf_path = ''cv.pdf''\<rparr>
       = Inl EnvironmentError
   \<and> extension ''cv.docx'' = Inr ''docx''
   \<and> allowed_file ''cv.docx''
   \<and> detect_loop hsv_8u (\<lambda>s. s) default_prices
        [\<lparr>upload_name = ''cv.docx'', save_error = None,
          world = \<lparr>conversion = \<lparr>platform_system = ''Linux'', which = (\<lambda>c. False),
                                   makedirs = None, run = RunOk, pdf_exists = False,
                                   pdf_path = ''cv.pdf''\<rparr>,
                    imread = None, fitz_open = Inl (OtherError ''FileDataError'')\<rparr>\<rparr>,
         \<lparr>upload_name = ''p.png'', save_error = None,
          world = \<lparr>conversion = \<lparr>platform_system = ''Linux'', which = (\<lambda>c. False),
                                   makedirs = None, run = RunOk, pdf_exists = False,
                                   pdf_path = ''p.pdf''\<rparr>,
                    imread = Some \<lparr>rows = 1, cols = 1, chans = 3, data = [0, 0, 255]\<rparr>,
                    fitz_open = Inl (OtherError ''FileDataError'')\<rparr>\<rparr>] []
       = Inr [\<lparr>filename = ''cv.docx'', file_type = ''document'', total_pages = 0,
                total_price = JInt 0, total_price_bnw = JInt 0, colors = []\<rparr>,
              \<lparr>filename = ''p.png'', file_type = ''image'', total_pages = 1,
                total_price = JInt 1500, total_price_bnw = JInt 500,
                colors = [\<lparr>page = 1, page_color = ''full_color'', price = JInt 1500,
                           price_bnw = JInt 500, percentage = 100\<rparr>]\<rparr>]"
proof -
  let ?c = "\<lparr>platform_system = ''Linux'', which = (\<lambda>c. False), makedirs = None,
            run = RunOk, pdf_exists = False, pdf_path = ''cv.pdf''\<rparr>"
  let ?doc = "\<lparr>upload_name = ''cv.docx'', save_error = None,
          world = \<lparr>conversion = ?c, imread = None,
                    fitz_open = Inl (OtherError ''FileDataError'')\<rparr>\<rparr>"
  let ?img = "\<lparr>upload_name = ''p.png'', save_error = None,
          world = \<lparr>conversion = \<lparr>platform_system = ''Linux'', which = (\<lambda>c. False),
                                   makedirs = None, run = RunOk, pdf_exists = False,
                                   pdf_path = ''p.pdf''\<rparr>,
                    imread = Some \<lparr>rows = 1, cols = 1, chans = 3, data = [0, 0, 255 :: byte]\<rparr>,
                    fitz_open = Inl (OtherError ''FileDataError'')\<rparr>\<rparr>"
  let ?d = "\<lparr>filename = ''cv.docx'', file_type = ''document'', total_pages = 0,
             total_price = JInt 0, total_price_bnw = JInt 0, colors = []\<rparr>"
  let ?p = "\<lparr>filename = ''p.png'', file_type = ''image'', total_pages = 1,
                total_price = JInt 1500, total_price_bnw = JInt 500,
                colors = [\<lparr>page = 1, page_color = ''full_color'', price = JInt 1500,
                           price_bnw = JInt 500, percentage = 100\<rparr>]\<rparr>"
  have h1: "find (which ?c) (possible_cmds ?c) = None" by code_simp
  have h2: "extension ''cv.docx'' = Inr ''docx''" by code_simp
  have h3: "allowed_file ''cv.docx''" by code_simp
  have others: "detect_loop hsv_8u (\<lambda>s. s) default_prices [?img] [] = Inr [?p]" by code_simp
  note t = conversion_failure_degrades
    [of ?c "''cv.docx''" "''docx''" "world ?doc" EnvironmentError hsv_8u default_prices
        ?doc "\<lambda>s. s" "''docx''" EnvironmentError "[?img]" "[]"]
  have fail: "convert_doc_to_pdf ?c = Inl EnvironmentError" by code_simp
  have hyp: "upload_name ?doc \<noteq> [] \<and> allowed_file (upload_name ?doc) \<and> save_error ?doc = None
      \<and> extension (upload_name ?doc) = Inr ''docx'' \<and> (''docx'' = ''doc'' \<or> ''docx'' = ''docx'')
      \<and> convert_doc_to_pdf (conversion (world ?doc)) = Inl EnvironmentError"
    using h2 h3 fail by simp
  note step = t [THEN conjunct2, THEN conjunct2, THEN mp, OF hyp]
  have "detect_loop hsv_8u (\<lambda>s. s) default_prices [?doc, ?img] [] = Inr [?d, ?p]"
    by (simp only: step others) (simp add: bind_exc_def)
  with h1 h2 h3 fail show ?thesis by blast
qed

end
